theory Spec2Isabelle
  imports Main "HOL-Library.Char_ord" "HOL-Library.List_Lexorder"
begin

section \<open>Existence filters and their bit length\<close>

text \<open>
  Modelled from the spec: the type declaration \<open>ExistenceFilter\<close> is imported by
  \<open>run_test.ts\<close> from \<open>src/protos/firestore_proto_api\<close>, which is not among the
  sources. The spec gives its wire shape as "optional
  \<open>unchangedNames.bits.{bitmap: byte-string, padding: 0..7}\<close>", and
  \<open>getBloomFilterNumBits\<close> reads exactly these fields. An optional field is an
  \<open>option\<close>: \<open>None\<close> is the field that is not there (\<open>undefined\<close>); a field that is
  there and holds \<open>null\<close>, which the declared types exclude, has no value in this type.
  The bitmap
  is the byte string held by the field, one \<open>char\<close> for each byte, so that
  \<open>bitmap.length\<close> is \<open>length\<close>; the padding is a whole number.
\<close>

record BitSequence =
  bitmap :: "string option"
  padding :: "int option"

record BloomFilter =
  bits :: "BitSequence option"

record ExistenceFilter =
  unchangedNames :: "BloomFilter option"

text \<open>
  \<open>getBloomFilterNumBits\<close>, lines 181 to 191 of \<open>run_test.ts\<close>. The argument is
  an \<open>option\<close> because the function reads it through \<open>existenceFilter?.\<close>: a filter
  that is \<open>null\<close> or \<open>undefined\<close> is \<open>None\<close>. The result \<open>number | null\<close> is an
  \<open>int option\<close>. The two \<open>??\<close> defaults of lines 185 and 186 are the two inner
  \<open>case\<close> expressions.
\<close>

definition getBloomFilterNumBits :: "ExistenceFilter option \<Rightarrow> int option" where
  "getBloomFilterNumBits existenceFilter =
     (case existenceFilter of
        None \<Rightarrow> None
      | Some ef \<Rightarrow>
          (case unchangedNames ef of
             None \<Rightarrow> None
           | Some un \<Rightarrow>
               (let bitmap' = (case bits un of
                                 None \<Rightarrow> ''''
                               | Some bs \<Rightarrow> (case bitmap bs of None \<Rightarrow> '''' | Some b \<Rightarrow> b));
                    padding' = (case bits un of
                                  None \<Rightarrow> 0
                                | Some bs \<Rightarrow> (case padding bs of None \<Rightarrow> 0 | Some p \<Rightarrow> p))
                in if padding' < 0 \<or> padding' > 7 then None
                   else Some (int (length bitmap') * 8 - padding'))))"

section \<open>Errors\<close>

text \<open>What the two files throw: the \<open>Error\<close> of the \<open>Delay\<close> constructor with its
  message, the \<open>InvalidRunTestOptionsError\<close> of \<open>runTest\<close> with the two counts its message
  shows (delete count, then create count), the failure of \<open>assertDeepEqual\<close> with the two
  arrays compared, and a rejection coming from a collaborator.\<close>

datatype error =
    Error string
  | InvalidRunTestOptionsError int int
  | AssertionError "string list" "string list"
  | Rejected string

section \<open>The delay picker of \<open>delay.ts\<close>\<close>

text \<open>
  The class \<open>Delay\<close>. Its three fields are the record; the field initialiser
  \<open>OFFLINE_DELAY_MS_ = 5000\<close> is a constant. The environment probes
  \<open>isMobileCordova\<close>, \<open>isReactNative\<close> (read once, by the constructor) and
  \<open>isOnline\<close> (read by each \<open>get\<close>) come from modules outside the sources and are
  parameters. Delays are whole numbers of milliseconds.
\<close>

record Delay =
  shortDelay :: int
  longDelay :: int
  isMobile :: bool

definition OFFLINE_DELAY_MS :: int where
  "OFFLINE_DELAY_MS = 5000"

definition Delay_new :: "bool \<Rightarrow> bool \<Rightarrow> int \<Rightarrow> int \<Rightarrow> error + Delay" where
  "Delay_new isMobileCordova isReactNative shortDelay' longDelay' =
     (if shortDelay' > longDelay'
      then Inl (Error ''Short delay should be less than long delay!'')
      else Inr \<lparr>shortDelay = shortDelay', longDelay = longDelay',
                isMobile = (isMobileCordova \<or> isReactNative)\<rparr>)"

definition get :: "Delay \<Rightarrow> bool \<Rightarrow> int" where
  "get this isOnline =
     (if \<not> isOnline then min OFFLINE_DELAY_MS (shortDelay this)
      else if isMobile this then longDelay this else shortDelay this)"

section \<open>The probe of \<open>run_test.ts\<close>: data\<close>

text \<open>
  Modelled from the spec: \<open>DocumentReference\<close> (\<open>src/api/reference\<close>) and
  \<open>TargetSnapshot\<close> (\<open>./watch_stream\<close>) are declared outside the sources. The probe
  reads one field of each: the \<open>id\<close> of a reference, and \<open>documentPaths\<close> of a
  snapshot, "a set of document path identifiers". The JavaScript \<open>Set\<close> is the list of
  its members in insertion order (what \<open>Array.from\<close> returns); a \<open>Set\<close> holds no
  member twice, so the list of a snapshot is \<open>distinct\<close> and \<open>size\<close> is its length.
\<close>

record DocumentReference =
  docId :: string

record TargetSnapshot =
  documentPaths :: "string list"

text \<open>The argument of \<open>addTarget\<close>, as the two object literals of lines 123 and 146
  build it; \<open>resume\<close> stays \<open>None\<close> for target 1.\<close>

record ResumeSpec =
  resume_from :: TargetSnapshot
  expectedCount :: int

record TargetSpec =
  targetId :: int
  target_projectId :: string
  target_collectionId :: string
  keyFilter :: string
  valueFilter :: string
  resume :: "ResumeSpec option"

text \<open>The optional second parameter of \<open>resumeWatchStream\<close>:
  \<open>options?: { expectedCount?: number }\<close>.\<close>

record ResumeOptions =
  options_expectedCount :: "int option"

text \<open>The data fields of the class \<open>BloomFilterWatchTest\<close>. Its collaborator fields
  (\<open>db\<close>, \<open>watchStream\<close>, \<open>documentUtil\<close>, \<open>log\<close>) are the environment below.\<close>

record BloomFilterWatchTest =
  projectId :: string
  host :: string
  ssl :: bool
  documentCreateCount :: int
  documentDeleteCount :: int
  collectionId :: string
  uniqueId :: string

definition DOCUMENT_DATA_KEY :: string where
  "DOCUMENT_DATA_KEY = ''BloomFilterWatchTest_GroupId''"

text \<open>
  Every line the probe logs is a template with interpolated values; a log line is the
  template's name with those values.
\<close>

datatype log_line =
    TestStarted
  | CreatingWatchStream string string
  | ClosingWatchStream
  | TestCompleted
  | CreatingDocuments int string
  | CreatedDocuments int string string
  | DeletingDocuments nat string
  | DeletedDocuments nat
  | PausingFor int
  | AddingTarget
  | WaitingForSnapshot
  | GotSnapshot nat string
  | RemovingTarget
  | ResumingTarget int
  | WaitingForExistenceFilter
  | NoExistenceFilter
  | GotExistenceFilter ExistenceFilter
  | BloomFilterSize int

text \<open>What the probe does to the outside world, in the order it does it: each call of a
  collaborator's method and each logged line is one event.\<close>

datatype event =
    EvLog log_line
  | EvCreateWatchStream string string bool
  | EvOpen
  | EvClose
  | EvAddTarget TargetSpec
  | EvRemoveTarget int
  | EvGetInitialSnapshot int
  | EvGetExistenceFilter int
  | EvCreateDocuments int string string
  | EvDeleteDocuments "DocumentReference list"
  | EvSetTimeout int

section \<open>Promises, \<open>await\<close> and \<open>try ... finally\<close>\<close>

text \<open>
  A promise either never settles or settles at some moment of a logical clock
  (milliseconds), fulfilled with a value (\<open>Inr\<close>) or rejected with an error (\<open>Inl\<close>).
  A settle time that is not after the clock of the \<open>await\<close> is a promise that has
  settled already.
\<close>

datatype 'a promise = Pending | SettlesAt nat "error + 'a"

text \<open>An \<open>async\<close> function body, started at a clock value, returns, throws or never
  completes; it yields the events it caused, in order, and the clock at which it stopped.\<close>

datatype 'a outcome = Returned 'a | Threw error | Hangs

type_synonym 'a io = "nat \<Rightarrow> 'a outcome \<times> event list \<times> nat"

definition io_return :: "'a \<Rightarrow> 'a io" where
  "io_return a = (\<lambda>t. (Returned a, [], t))"

definition io_throw :: "error \<Rightarrow> 'a io" where
  "io_throw e = (\<lambda>t. (Threw e, [], t))"

definition emit :: "event \<Rightarrow> unit io" where
  "emit e = (\<lambda>t. (Returned (), [e], t))"

text \<open>Sequencing: the second statement runs only when the first has returned.\<close>

definition io_bind :: "'a io \<Rightarrow> ('a \<Rightarrow> 'b io) \<Rightarrow> 'b io" where
  "io_bind m f = (\<lambda>t.
     case m t of
       (Returned a, es, t') \<Rightarrow> (case f a t' of (r, es', t'') \<Rightarrow> (r, es @ es', t''))
     | (Threw e, es, t') \<Rightarrow> (Threw e, es, t')
     | (Hangs, es, t') \<Rightarrow> (Hangs, es, t'))"

definition await :: "'a promise \<Rightarrow> 'a io" where
  "await p = (\<lambda>t.
     case p of
       Pending \<Rightarrow> (Hangs, [], t)
     | SettlesAt u (Inl e) \<Rightarrow> (Threw e, [], max t u)
     | SettlesAt u (Inr v) \<Rightarrow> (Returned v, [], max t u))"

text \<open>
  \<open>Promise.race([p, q])\<close>, called at clock \<open>now\<close>: the promise that settles first
  decides. Of two promises that have both settled by \<open>now\<close>, and of two that settle at
  the same moment, the first of the array decides, since its reaction is queued first.
\<close>

definition race :: "'a promise \<Rightarrow> 'b promise \<Rightarrow> nat \<Rightarrow> ('a + 'b) promise" where
  "race p q now =
     (case p of
        Pending \<Rightarrow> (case q of
                      Pending \<Rightarrow> Pending
                    | SettlesAt v s \<Rightarrow> SettlesAt v (map_sum id Inr s))
      | SettlesAt u r \<Rightarrow> (case q of
                      Pending \<Rightarrow> SettlesAt u (map_sum id Inl r)
                    | SettlesAt v s \<Rightarrow>
                        if max now u \<le> max now v then SettlesAt u (map_sum id Inl r)
                        else SettlesAt v (map_sum id Inr s)))"

definition await_race :: "'a promise \<Rightarrow> 'b promise \<Rightarrow> ('a + 'b) io" where
  "await_race p q = (\<lambda>t. await (race p q t) t)"

text \<open>
  \<open>try { body } finally { fin }\<close>: \<open>fin\<close> runs once \<open>body\<close> has returned or thrown. When
  \<open>fin\<close> returns, the statement completes as \<open>body\<close> did; when \<open>fin\<close> throws, its error
  replaces the outcome of \<open>body\<close>. A \<open>body\<close> that never completes never reaches \<open>fin\<close>.
\<close>

definition try_finally :: "'a io \<Rightarrow> unit io \<Rightarrow> 'a io" where
  "try_finally body fin = (\<lambda>t.
     case body t of
       (Hangs, es, t') \<Rightarrow> (Hangs, es, t')
     | (r, es, t') \<Rightarrow>
         (case fin t' of
            (Returned _, es', t'') \<Rightarrow> (r, es @ es', t'')
          | (Threw e, es', t'') \<Rightarrow> (Threw e, es @ es', t'')
          | (Hangs, es', t'') \<Rightarrow> (Hangs, es @ es', t'')))"

definition events :: "'a io \<Rightarrow> nat \<Rightarrow> event list" where
  "events m t = fst (snd (m t))"

definition result :: "'a io \<Rightarrow> nat \<Rightarrow> 'a outcome" where
  "result m t = fst (m t)"

definition clock_after :: "'a io \<Rightarrow> nat \<Rightarrow> nat" where
  "clock_after m t = snd (snd (m t))"

section \<open>The collaborators\<close>

text \<open>
  Modelled from the spec: \<open>WatchStream\<close> and \<open>createWatchStream\<close> (\<open>./watch_stream\<close>),
  \<open>DocumentUtil\<close> (\<open>./document_util\<close>), \<open>AutoId\<close> (\<open>src/util/misc\<close>) and the helpers of
  \<open>./util\<close> are imported from modules outside the sources; the spec treats them as
  black boxes with the interface "\<open>open()\<close>, \<open>close()\<close>, \<open>addTarget(spec)\<close>,
  \<open>removeTarget(id)\<close>, \<open>getInitialSnapshot(id)\<close>, \<open>getExistenceFilter(id)\<close>" and
  "\<open>createDocuments(count, fields)\<close>, \<open>deleteDocuments(references)\<close>". What each call
  answers is therefore a parameter: the promise it returns, which may fulfil, reject or
  stay pending. \<open>autoId k\<close> is the identifier drawn by the \<open>k\<close>-th call of
  \<open>AutoId.newId()\<close>. The log sink, the two constructors and the two string helpers are
  taken to return normally.
\<close>

record collaborators =
  autoId :: "nat \<Rightarrow> string"
  ws_open :: "unit promise"
  ws_close :: "unit promise"
  ws_addTarget :: "TargetSpec \<Rightarrow> unit promise"
  ws_removeTarget :: "int \<Rightarrow> unit promise"
  ws_getInitialSnapshot :: "int \<Rightarrow> TargetSnapshot promise"
  ws_getExistenceFilter :: "int \<Rightarrow> ExistenceFilter promise"
  du_createDocuments :: "int \<Rightarrow> string \<Rightarrow> string \<Rightarrow> DocumentReference list promise"
  du_deleteDocuments :: "DocumentReference list \<Rightarrow> unit promise"
  documentIdFromDocumentPath :: "string \<Rightarrow> string"
  descriptionFromSortedStrings :: "string list \<Rightarrow> string"

text \<open>
  Modelled from the spec: \<open>assertDeepEqual\<close> is a helper of \<open>./util\<close>, outside the
  sources. By its name and by the spec's Step 2 ("assert its document set equals exactly
  the created set") it throws unless its two arguments are equal arrays.
\<close>

definition assertDeepEqual :: "string list \<Rightarrow> string list \<Rightarrow> error + unit" where
  "assertDeepEqual actual expected =
     (if actual = expected then Inr () else Inl (AssertionError actual expected))"

definition log :: "log_line \<Rightarrow> unit io" where
  "log l = emit (EvLog l)"

definition io_lift :: "error + 'a \<Rightarrow> 'a io" where
  "io_lift r = (case r of Inl e \<Rightarrow> io_throw e | Inr a \<Rightarrow> io_return a)"

text \<open>\<open>Array.prototype.slice(start)\<close> with one argument: a negative \<open>start\<close> counts from
  the end, and the start is clamped to the array.\<close>

definition slice :: "'a list \<Rightarrow> int \<Rightarrow> 'a list" where
  "slice xs start =
     (let len = int (length xs);
          k = (if start < 0 then max (len + start) 0 else min start len)
      in drop (nat k) xs)"

section \<open>The probe of \<open>run_test.ts\<close>: operations\<close>

text \<open>\<open>assertDocumentsInSnapshot\<close>, lines 193 to 197. \<open>sort\<close> on strings is the
  lexicographic order of their characters, as the default order of
  \<open>Array.prototype.sort\<close> is on code units.\<close>

definition assertDocumentsInSnapshot ::
  "collaborators \<Rightarrow> TargetSnapshot \<Rightarrow> DocumentReference list \<Rightarrow> error + unit" where
  "assertDocumentsInSnapshot env snapshot expectedDocuments =
     (let actualDocumentPathsSorted =
            sort (map (documentIdFromDocumentPath env) (documentPaths snapshot));
          expectedDocumentPathsSorted = sort (map docId expectedDocuments)
      in assertDeepEqual actualDocumentPathsSorted expectedDocumentPathsSorted)"

text \<open>\<open>createDocuments\<close>, lines 98 to 106.\<close>

definition createDocuments ::
  "collaborators \<Rightarrow> BloomFilterWatchTest \<Rightarrow> DocumentReference list io" where
  "createDocuments env this =
     io_bind (log (CreatingDocuments (documentCreateCount this) (collectionId this))) (\<lambda>_.
     io_bind (emit (EvCreateDocuments (documentCreateCount this) DOCUMENT_DATA_KEY (uniqueId this))) (\<lambda>_.
     io_bind (await (du_createDocuments env (documentCreateCount this) DOCUMENT_DATA_KEY (uniqueId this)))
       (\<lambda>createdDocumentRefs.
     let createdDocumentIds = map docId createdDocumentRefs in
     io_bind (log (CreatedDocuments (documentCreateCount this) (collectionId this)
                     (descriptionFromSortedStrings env createdDocumentIds))) (\<lambda>_.
     io_return createdDocumentRefs))))"

text \<open>\<open>deleteDocuments\<close>, lines 108 to 114.\<close>

definition deleteDocuments ::
  "collaborators \<Rightarrow> BloomFilterWatchTest \<Rightarrow> DocumentReference list \<Rightarrow> unit io" where
  "deleteDocuments env this documentRefsToDelete =
     (let documentIdsToDelete = map docId documentRefsToDelete in
      io_bind (log (DeletingDocuments (length documentRefsToDelete)
                      (descriptionFromSortedStrings env documentIdsToDelete))) (\<lambda>_.
      io_bind (emit (EvDeleteDocuments documentRefsToDelete)) (\<lambda>_.
      io_bind (await (du_deleteDocuments env documentRefsToDelete)) (\<lambda>_.
      log (DeletedDocuments (length documentRefsToDelete))))))"

text \<open>\<open>pause\<close>, lines 116 to 119, is not \<open>async\<close>: it logs, sets a timer and returns the
  promise that the timer fulfils \<open>numSecondsToPause * 1000\<close> milliseconds later.\<close>

definition setTimeout :: "int \<Rightarrow> unit promise io" where
  "setTimeout ms = (\<lambda>t. (Returned (SettlesAt (t + nat ms) (Inr ())), [EvSetTimeout ms], t))"

definition pause :: "int \<Rightarrow> unit promise io" where
  "pause numSecondsToPause =
     io_bind (log (PausingFor numSecondsToPause)) (\<lambda>_.
     setTimeout (numSecondsToPause * 1000))"

text \<open>\<open>startTarget\<close>, lines 121 to 141.\<close>

definition startTarget :: "collaborators \<Rightarrow> BloomFilterWatchTest \<Rightarrow> TargetSnapshot io" where
  "startTarget env this =
     (let spec = \<lparr>targetId = 1, target_projectId = projectId this,
                  target_collectionId = collectionId this, keyFilter = DOCUMENT_DATA_KEY,
                  valueFilter = uniqueId this, resume = None\<rparr> in
      io_bind (log AddingTarget) (\<lambda>_.
      io_bind (emit (EvAddTarget spec)) (\<lambda>_.
      io_bind (await (ws_addTarget env spec)) (\<lambda>_.
      io_bind (log WaitingForSnapshot) (\<lambda>_.
      io_bind (emit (EvGetInitialSnapshot 1)) (\<lambda>_.
      io_bind (await (ws_getInitialSnapshot env 1)) (\<lambda>snapshot.
      let documentNames = sort (documentPaths snapshot);
          documentIds = map (documentIdFromDocumentPath env) documentNames in
      io_bind (log (GotSnapshot (length documentIds)
                      (descriptionFromSortedStrings env documentIds))) (\<lambda>_.
      io_bind (log RemovingTarget) (\<lambda>_.
      io_bind (emit (EvRemoveTarget 1)) (\<lambda>_.
      io_bind (await (ws_removeTarget env 1)) (\<lambda>_.
      io_return snapshot)))))))))))"

text \<open>
  \<open>resumeWatchStream\<close>, lines 143 to 178. The two promises of lines 159 and 160 are
  obtained before either is awaited; the result of the race is \<open>Inr\<close> for a
  \<open>TargetSnapshot\<close> (the \<open>instanceof\<close> test of line 163) and \<open>Inl\<close> for an existence
  filter.
\<close>

definition resumeWatchStream ::
  "collaborators \<Rightarrow> BloomFilterWatchTest \<Rightarrow> TargetSnapshot \<Rightarrow> ResumeOptions option \<Rightarrow> unit io" where
  "resumeWatchStream env this snapshot options =
     (let expectedCount' =
            (case (case options of None \<Rightarrow> None | Some opts \<Rightarrow> options_expectedCount opts) of
               None \<Rightarrow> int (length (documentPaths snapshot))
             | Some c \<Rightarrow> c);
          spec = \<lparr>targetId = 2, target_projectId = projectId this,
                  target_collectionId = collectionId this, keyFilter = DOCUMENT_DATA_KEY,
                  valueFilter = uniqueId this,
                  resume = Some \<lparr>resume_from = snapshot, expectedCount = expectedCount'\<rparr>\<rparr> in
      io_bind (log (ResumingTarget expectedCount')) (\<lambda>_.
      io_bind (emit (EvAddTarget spec)) (\<lambda>_.
      io_bind (await (ws_addTarget env spec)) (\<lambda>_.
      io_bind (log WaitingForExistenceFilter) (\<lambda>_.
      io_bind (emit (EvGetExistenceFilter 2)) (\<lambda>_.
      let existenceFilterPromise = ws_getExistenceFilter env 2 in
      io_bind (emit (EvGetInitialSnapshot 2)) (\<lambda>_.
      let snapshotPromise = ws_getInitialSnapshot env 2 in
      io_bind (await_race existenceFilterPromise snapshotPromise) (\<lambda>result.
      io_bind (case result of
                 Inr _ \<Rightarrow> log NoExistenceFilter
               | Inl existenceFilter \<Rightarrow>
                   io_bind (log (GotExistenceFilter existenceFilter)) (\<lambda>_.
                   (case getBloomFilterNumBits (Some existenceFilter) of
                      None \<Rightarrow> io_return ()
                    | Some bloomFilterNumBits \<Rightarrow> log (BloomFilterSize bloomFilterNumBits)))) (\<lambda>_.
      io_bind (log WaitingForSnapshot) (\<lambda>_.
      io_bind (await snapshotPromise) (\<lambda>snapshot2.
      let documentNames2 = sort (documentPaths snapshot2);
          documentIds2 = map (documentIdFromDocumentPath env) documentNames2 in
      log (GotSnapshot (length documentIds2)
             (descriptionFromSortedStrings env documentIds2)))))))))))))"

text \<open>\<open>BloomFilterWatchTest.run\<close>, lines 85 to 96.\<close>

definition run :: "collaborators \<Rightarrow> BloomFilterWatchTest \<Rightarrow> unit io" where
  "run env this =
     io_bind (createDocuments env this) (\<lambda>createdDocumentRefs.
     io_bind (startTarget env this) (\<lambda>snapshot.
     io_bind (io_lift (assertDocumentsInSnapshot env snapshot createdDocumentRefs)) (\<lambda>_.
     let documentRefsToDelete =
           slice createdDocumentRefs
             (int (length createdDocumentRefs) - documentDeleteCount this) in
     io_bind (deleteDocuments env this documentRefsToDelete) (\<lambda>_.
     io_bind (pause 10) (\<lambda>paused.
     io_bind (await paused) (\<lambda>_.
     resumeWatchStream env this snapshot None))))))"

text \<open>
  \<open>runTest\<close>, lines 39 to 64. \<open>Math.ceil(n / 2)\<close> of a whole number \<open>n\<close> is
  \<open>(n + 1) div 2\<close>. The first \<open>AutoId.newId()\<close> is drawn only when no collection
  identifier is given; the constructor of line 54 (lines 71 to 83) draws the next one
  for \<open>uniqueId\<close>. The handle \<open>db\<close> is only passed on to \<open>DocumentUtil\<close> and is left
  out. The three nullable parameters, whose names end in an underscore in the source,
  carry the suffix \<open>_opt\<close> here.
\<close>

definition runTest ::
  "collaborators \<Rightarrow> string \<Rightarrow> string \<Rightarrow> bool \<Rightarrow> int option \<Rightarrow> int option \<Rightarrow> string option
     \<Rightarrow> unit io" where
  "runTest env projectId' host' ssl' documentCreateCount_opt documentDeleteCount_opt collectionId_opt =
     io_bind (log TestStarted) (\<lambda>_.
     let collectionId' = (case collectionId_opt of
                            Some c \<Rightarrow> c
                          | None \<Rightarrow> ''bloom_filter_watch_test_'' @ autoId env 0);
         drawn = (case collectionId_opt of Some _ \<Rightarrow> 0 | None \<Rightarrow> Suc 0);
         documentCreateCount' = (case documentCreateCount_opt of Some n \<Rightarrow> n | None \<Rightarrow> 10);
         documentDeleteCount' = (case documentDeleteCount_opt of
                                   Some d \<Rightarrow> d
                                 | None \<Rightarrow> (documentCreateCount' + 1) div 2) in
     if documentDeleteCount' > documentCreateCount'
     then io_throw (InvalidRunTestOptionsError documentDeleteCount' documentCreateCount')
     else
       io_bind (log (CreatingWatchStream projectId' host')) (\<lambda>_.
       io_bind (emit (EvCreateWatchStream projectId' host' ssl')) (\<lambda>_.
       let testRunner = \<lparr>projectId = projectId', host = host', ssl = ssl',
                         documentCreateCount = documentCreateCount',
                         documentDeleteCount = documentDeleteCount',
                         collectionId = collectionId', uniqueId = autoId env drawn\<rparr> in
       io_bind (emit EvOpen) (\<lambda>_.
       io_bind (await (ws_open env)) (\<lambda>_.
       io_bind (try_finally (run env testRunner)
                  (io_bind (log ClosingWatchStream) (\<lambda>_.
                   io_bind (emit EvClose) (\<lambda>_.
                   await (ws_close env))))) (\<lambda>_.
       log TestCompleted))))))"

section \<open>Observations on a run\<close>

text \<open>The arguments of the \<open>addTarget\<close> calls and of the \<open>deleteDocuments\<close> calls among
  the events of a run, in order.\<close>

fun addTarget_calls :: "event list \<Rightarrow> TargetSpec list" where
  "addTarget_calls [] = []"
| "addTarget_calls (EvAddTarget spec # es) = spec # addTarget_calls es"
| "addTarget_calls (_ # es) = addTarget_calls es"

fun deleteDocuments_calls :: "event list \<Rightarrow> DocumentReference list list" where
  "deleteDocuments_calls [] = []"
| "deleteDocuments_calls (EvDeleteDocuments ds # es) = ds # deleteDocuments_calls es"
| "deleteDocuments_calls (_ # es) = deleteDocuments_calls es"

text \<open>
  A concrete run, at which the theorems below are instantiated: two documents \<open>d1\<close>,
  \<open>d2\<close> are created, the first snapshot lists both (in the other order), \<open>d2\<close> is
  deleted, and on resumption an existence filter of four bytes with padding 3 arrives at
  15 s, before the snapshot of the one remaining document at 20 s.
\<close>

definition sample_filter :: ExistenceFilter where
  "sample_filter =
     \<lparr>unchangedNames = Some \<lparr>bits = Some \<lparr>bitmap = Some ''abcd'', padding = Some 3\<rparr>\<rparr>\<rparr>"

definition sample_refs :: "DocumentReference list" where
  "sample_refs = [\<lparr>docId = ''d1''\<rparr>, \<lparr>docId = ''d2''\<rparr>]"

definition sample_snapshot :: TargetSnapshot where
  "sample_snapshot = \<lparr>documentPaths = [''c/d2'', ''c/d1'']\<rparr>"

definition sample_env :: collaborators where
  "sample_env =
     \<lparr>autoId = (\<lambda>k. if k = 0 then ''A'' else ''B''),
      ws_open = SettlesAt 1 (Inr ()),
      ws_close = SettlesAt 0 (Inr ()),
      ws_addTarget = (\<lambda>_. SettlesAt 0 (Inr ())),
      ws_removeTarget = (\<lambda>_. SettlesAt 0 (Inr ())),
      ws_getInitialSnapshot =
        (\<lambda>k. if k = 1 then SettlesAt 5 (Inr sample_snapshot)
             else SettlesAt 20000 (Inr \<lparr>documentPaths = [''c/d1'']\<rparr>)),
      ws_getExistenceFilter = (\<lambda>_. SettlesAt 15000 (Inr sample_filter)),
      du_createDocuments = (\<lambda>n k v. SettlesAt 2 (Inr sample_refs)),
      du_deleteDocuments = (\<lambda>_. SettlesAt 3 (Inr ())),
      documentIdFromDocumentPath = drop 2,
      descriptionFromSortedStrings = concat\<rparr>"

definition sample_runner :: BloomFilterWatchTest where
  "sample_runner =
     \<lparr>projectId = ''p'', host = ''h'', ssl = True, documentCreateCount = 2,
      documentDeleteCount = 1, collectionId = ''c'', uniqueId = ''A''\<rparr>"

text \<open>The same run when creating the documents fails and \<open>close()\<close> then rejects as well.\<close>

definition failing_env :: collaborators where
  "failing_env =
     sample_env\<lparr>du_createDocuments := (\<lambda>n k v. SettlesAt 2 (Inl (Rejected ''create''))),
                ws_close := SettlesAt 0 (Inl (Rejected ''close''))\<rparr>"



section \<open>Projections of a run\<close>

text \<open>The outcome, the events and the final clock of each combinator, as rewrite rules.\<close>

lemma addTarget_calls_append [simp]:
  "addTarget_calls (xs @ ys) = addTarget_calls xs @ addTarget_calls ys"
  by (induction xs rule: addTarget_calls.induct) simp_all

lemma deleteDocuments_calls_append [simp]:
  "deleteDocuments_calls (xs @ ys) = deleteDocuments_calls xs @ deleteDocuments_calls ys"
  by (induction xs rule: deleteDocuments_calls.induct) simp_all

named_theorems io_simps

lemma io_return_proj [io_simps]:
  "result (io_return a) t = Returned a" "events (io_return a) t = []" "clock_after (io_return a) t = t"
  by (simp_all add: result_def events_def clock_after_def io_return_def)

lemma io_throw_proj [io_simps]:
  "result (io_throw e) t = Threw e" "events (io_throw e) t = []" "clock_after (io_throw e) t = t"
  by (simp_all add: result_def events_def clock_after_def io_throw_def)

lemma emit_proj [io_simps]:
  "result (emit e) t = Returned ()" "events (emit e) t = [e]" "clock_after (emit e) t = t"
  by (simp_all add: result_def events_def clock_after_def emit_def)

lemma log_proj [io_simps]:
  "result (log l) t = Returned ()" "events (log l) t = [EvLog l]" "clock_after (log l) t = t"
  by (simp_all add: log_def emit_proj)

lemma await_proj [io_simps]:
  "result (await p) t =
     (case p of Pending \<Rightarrow> Hangs | SettlesAt u r \<Rightarrow> (case r of Inl e \<Rightarrow> Threw e | Inr v \<Rightarrow> Returned v))"
  "events (await p) t = []"
  "clock_after (await p) t = (case p of Pending \<Rightarrow> t | SettlesAt u r \<Rightarrow> max t u)"
  by (simp_all add: result_def events_def clock_after_def await_def split: promise.splits sum.splits)

lemma await_race_proj [io_simps]:
  "result (await_race p q) t = result (await (race p q t)) t"
  "events (await_race p q) t = []"
  "clock_after (await_race p q) t = clock_after (await (race p q t)) t"
  by (simp_all add: result_def events_def clock_after_def await_race_def await_def split: promise.splits sum.splits)

lemma setTimeout_proj [io_simps]:
  "result (setTimeout ms) t = Returned (SettlesAt (t + nat ms) (Inr ()))"
  "events (setTimeout ms) t = [EvSetTimeout ms]"
  "clock_after (setTimeout ms) t = t"
  by (simp_all add: result_def events_def clock_after_def setTimeout_def)

lemma io_lift_proj [io_simps]:
  "result (io_lift r) t = (case r of Inl e \<Rightarrow> Threw e | Inr a \<Rightarrow> Returned a)"
  "events (io_lift r) t = []"
  "clock_after (io_lift r) t = t"
  by (simp_all add: io_lift_def io_return_proj io_throw_proj split: sum.splits)

lemma io_bind_proj [io_simps]:
  "result (io_bind m f) t =
     (case result m t of Returned a \<Rightarrow> result (f a) (clock_after m t) | Threw e \<Rightarrow> Threw e | Hangs \<Rightarrow> Hangs)"
  "events (io_bind m f) t =
     events m t @ (case result m t of Returned a \<Rightarrow> events (f a) (clock_after m t) | Threw e \<Rightarrow> [] | Hangs \<Rightarrow> [])"
  "clock_after (io_bind m f) t =
     (case result m t of Returned a \<Rightarrow> clock_after (f a) (clock_after m t) | Threw e \<Rightarrow> clock_after m t | Hangs \<Rightarrow> clock_after m t)"
  by (simp_all add: result_def events_def clock_after_def io_bind_def split: prod.splits outcome.splits)

lemma try_finally_proj [io_simps]:
  "result (try_finally body fin) t =
     (case result body t of
        Hangs \<Rightarrow> Hangs
      | r \<Rightarrow> (case result fin (clock_after body t) of Returned _ \<Rightarrow> r | Threw e \<Rightarrow> Threw e | Hangs \<Rightarrow> Hangs))"
  "events (try_finally body fin) t =
     events body t @ (case result body t of Hangs \<Rightarrow> [] | _ \<Rightarrow> events fin (clock_after body t))"
  "clock_after (try_finally body fin) t =
     (case result body t of Hangs \<Rightarrow> clock_after body t | _ \<Rightarrow> clock_after fin (clock_after body t))"
  by (simp_all add: result_def events_def clock_after_def try_finally_def split: prod.splits outcome.splits)

lemma io_eq: "m t = (result m t, events m t, clock_after m t)"
  by (simp add: result_def events_def clock_after_def)

lemmas sample_defs = sample_env_def sample_runner_def sample_refs_def sample_snapshot_def
  sample_filter_def failing_env_def DOCUMENT_DATA_KEY_def

lemmas probe_defs = run_def createDocuments_def startTarget_def deleteDocuments_def pause_def
  resumeWatchStream_def assertDocumentsInSnapshot_def assertDeepEqual_def slice_def race_def
  Let_def

section \<open>The bit length of an existence filter\<close>

text \<open>
  Claim C1. \<open>getBloomFilterNumBits\<close> returns null for a missing filter, for a filter
  without \<open>unchangedNames\<close>, and for a padding below 0 or above 7; for a bitmap
  \<open>b\<close> and a padding \<open>p\<close> within 0 to 7 it returns the length of \<open>b\<close> times 8
  minus \<open>p\<close>.
\<close>

theorem getBloomFilterNumBits_decodes:
  "getBloomFilterNumBits None = None
   \<and> (unchangedNames ef = None \<longrightarrow> getBloomFilterNumBits (Some ef) = None)
   \<and> (unchangedNames ef = Some un \<and> bits un = Some bs \<and> padding bs = Some p \<and> (p < 0 \<or> 7 < p)
        \<longrightarrow> getBloomFilterNumBits (Some ef) = None)
   \<and> (unchangedNames ef = Some un \<and> bits un = Some bs \<and> bitmap bs = Some b \<and> padding bs = Some p
        \<and> 0 \<le> p \<and> p \<le> 7
        \<longrightarrow> getBloomFilterNumBits (Some ef) = Some (int (length b) * 8 - p))"
  by (simp add: getBloomFilterNumBits_def)

text \<open>The spec's examples: four bytes with padding 3 give 29, padding 8 gives null, and
  so does a filter without \<open>unchangedNames\<close>.\<close>

theorem getBloomFilterNumBits_decodes_witness:
  "getBloomFilterNumBits
     (Some \<lparr>unchangedNames = Some \<lparr>bits = Some \<lparr>bitmap = Some ''abcd'', padding = Some 3\<rparr>\<rparr>\<rparr>)
     = Some 29
   \<and> getBloomFilterNumBits
     (Some \<lparr>unchangedNames = Some \<lparr>bits = Some \<lparr>bitmap = Some ''abcd'', padding = Some 8\<rparr>\<rparr>\<rparr>)
     = None
   \<and> getBloomFilterNumBits (Some \<lparr>unchangedNames = None\<rparr>) = None"
  using getBloomFilterNumBits_decodes
          [of "\<lparr>unchangedNames = Some \<lparr>bits = Some \<lparr>bitmap = Some ''abcd'', padding = Some 3\<rparr>\<rparr>\<rparr>"
              "\<lparr>bits = Some \<lparr>bitmap = Some ''abcd'', padding = Some 3\<rparr>\<rparr>"
              "\<lparr>bitmap = Some ''abcd'', padding = Some 3\<rparr>" 3 "''abcd''"]
        getBloomFilterNumBits_decodes
          [of "\<lparr>unchangedNames = Some \<lparr>bits = Some \<lparr>bitmap = Some ''abcd'', padding = Some 8\<rparr>\<rparr>\<rparr>"
              "\<lparr>bits = Some \<lparr>bitmap = Some ''abcd'', padding = Some 8\<rparr>\<rparr>"
              "\<lparr>bitmap = Some ''abcd'', padding = Some 8\<rparr>" 8 "''abcd''"]
        getBloomFilterNumBits_decodes [of "\<lparr>unchangedNames = None\<rparr>"]
  by simp

text \<open>
  Claim C3, as stated: the function returns null whenever one of \<open>unchangedNames\<close>,
  \<open>bits\<close>, \<open>bitmap\<close>, \<open>padding\<close> is missing. It does not: a filter whose \<open>padding\<close> is
  missing and whose bitmap has four bytes yields 32, because line 186 replaces the
  missing padding by 0.
\<close>

theorem getBloomFilterNumBits_missing_padding_counterexample:
  "padding \<lparr>bitmap = Some ''abcd'', padding = None\<rparr> = None
   \<and> getBloomFilterNumBits
       (Some \<lparr>unchangedNames = Some \<lparr>bits = Some \<lparr>bitmap = Some ''abcd'', padding = None\<rparr>\<rparr>\<rparr>)
       = Some 32"
  by (simp add: getBloomFilterNumBits_def)

text \<open>
  Claim C3, amended. For a filter each of whose fields is absent or holds a value of
  its declared type, \<open>getBloomFilterNumBits\<close> returns null exactly when the filter is
  missing, or \<open>unchangedNames\<close> is missing, or the padding is there and lies outside 0
  to 7. A missing \<open>bits\<close>, \<open>bitmap\<close> or \<open>padding\<close> is replaced by its default, the
  empty bitmap and padding 0, and a number is returned. Nothing is said here about a
  field that is present and holds \<open>null\<close>.
\<close>

theorem getBloomFilterNumBits_null_iff:
  "((getBloomFilterNumBits x = None) =
      (x = None
       \<or> (\<exists>f. x = Some f \<and> unchangedNames f = None)
       \<or> (\<exists>f un' bs' p'. x = Some f \<and> unchangedNames f = Some un' \<and> bits un' = Some bs'
             \<and> padding bs' = Some p' \<and> (p' < 0 \<or> 7 < p'))))
   \<and> (unchangedNames ef = Some un \<and> bits un = None
        \<longrightarrow> getBloomFilterNumBits (Some ef) = Some 0)
   \<and> (unchangedNames ef = Some un \<and> bits un = Some bs \<and> bitmap bs = None \<and> padding bs = None
        \<longrightarrow> getBloomFilterNumBits (Some ef) = Some 0)
   \<and> (unchangedNames ef = Some un \<and> bits un = Some bs \<and> bitmap bs = Some b \<and> padding bs = None
        \<longrightarrow> getBloomFilterNumBits (Some ef) = Some (int (length b) * 8))
   \<and> (unchangedNames ef = Some un \<and> bits un = Some bs \<and> bitmap bs = None \<and> padding bs = Some p
        \<and> 0 \<le> p \<and> p \<le> 7
        \<longrightarrow> getBloomFilterNumBits (Some ef) = Some (- p))"
  by (auto simp: getBloomFilterNumBits_def Let_def split: option.splits if_splits)

theorem getBloomFilterNumBits_null_iff_witness:
  "getBloomFilterNumBits (Some \<lparr>unchangedNames = Some \<lparr>bits = None\<rparr>\<rparr>) = Some 0
   \<and> getBloomFilterNumBits
       (Some \<lparr>unchangedNames = Some \<lparr>bits = Some \<lparr>bitmap = None, padding = None\<rparr>\<rparr>\<rparr>) = Some 0
   \<and> getBloomFilterNumBits
       (Some \<lparr>unchangedNames = Some \<lparr>bits = Some \<lparr>bitmap = Some ''ab'', padding = None\<rparr>\<rparr>\<rparr>) = Some 16
   \<and> getBloomFilterNumBits
       (Some \<lparr>unchangedNames = Some \<lparr>bits = Some \<lparr>bitmap = None, padding = Some 3\<rparr>\<rparr>\<rparr>) = Some (- 3)
   \<and> getBloomFilterNumBits
       (Some \<lparr>unchangedNames = Some \<lparr>bits = Some \<lparr>bitmap = Some ''ab'', padding = Some (- 1)\<rparr>\<rparr>\<rparr>) = None"
  using getBloomFilterNumBits_null_iff
          [of _ "\<lparr>unchangedNames = Some \<lparr>bits = None\<rparr>\<rparr>" "\<lparr>bits = None\<rparr>"]
        getBloomFilterNumBits_null_iff
          [of _ "\<lparr>unchangedNames = Some \<lparr>bits = Some \<lparr>bitmap = None, padding = None\<rparr>\<rparr>\<rparr>"
              "\<lparr>bits = Some \<lparr>bitmap = None, padding = None\<rparr>\<rparr>" "\<lparr>bitmap = None, padding = None\<rparr>"]
        getBloomFilterNumBits_null_iff
          [of _ "\<lparr>unchangedNames = Some \<lparr>bits = Some \<lparr>bitmap = Some ''ab'', padding = None\<rparr>\<rparr>\<rparr>"
              "\<lparr>bits = Some \<lparr>bitmap = Some ''ab'', padding = None\<rparr>\<rparr>"
              "\<lparr>bitmap = Some ''ab'', padding = None\<rparr>" "''ab''"]
        getBloomFilterNumBits_null_iff
          [of _ "\<lparr>unchangedNames = Some \<lparr>bits = Some \<lparr>bitmap = None, padding = Some 3\<rparr>\<rparr>\<rparr>"
              "\<lparr>bits = Some \<lparr>bitmap = None, padding = Some 3\<rparr>\<rparr>"
              "\<lparr>bitmap = None, padding = Some 3\<rparr>" _ 3]
        getBloomFilterNumBits_null_iff
          [of "Some \<lparr>unchangedNames = Some \<lparr>bits = Some \<lparr>bitmap = Some ''ab'', padding = Some (- 1)\<rparr>\<rparr>\<rparr>"]
  by simp

text \<open>
  Claim C9. A filter whose \<open>unchangedNames\<close> is there and whose \<open>bits\<close> is missing
  yields 0, not null; and a null result occurs only when \<open>unchangedNames\<close> is absent
  (with the filter itself, or from it) or the padding is outside 0 to 7.
\<close>

theorem getBloomFilterNumBits_missing_bits:
  "(unchangedNames ef = Some un \<and> bits un = None \<longrightarrow> getBloomFilterNumBits (Some ef) = Some 0)
   \<and> (getBloomFilterNumBits x = None \<longrightarrow>
        x = None
        \<or> (\<exists>f. x = Some f \<and> unchangedNames f = None)
        \<or> (\<exists>f un' bs p. x = Some f \<and> unchangedNames f = Some un' \<and> bits un' = Some bs
              \<and> padding bs = Some p \<and> (p < 0 \<or> 7 < p)))"
  by (auto simp: getBloomFilterNumBits_def Let_def split: option.splits if_splits)

theorem getBloomFilterNumBits_missing_bits_witness:
  "getBloomFilterNumBits (Some \<lparr>unchangedNames = Some \<lparr>bits = None\<rparr>\<rparr>) = Some 0
   \<and> getBloomFilterNumBits
       (Some \<lparr>unchangedNames = Some \<lparr>bits = Some \<lparr>bitmap = Some ''ab'', padding = Some 9\<rparr>\<rparr>\<rparr>)
       = None
   \<and> (\<exists>p. padding \<lparr>bitmap = Some ''ab'', padding = Some 9\<rparr> = Some p \<and> (p < 0 \<or> 7 < p))"
proof -
  have null: "getBloomFilterNumBits
       (Some \<lparr>unchangedNames = Some \<lparr>bits = Some \<lparr>bitmap = Some ''ab'', padding = Some 9\<rparr>\<rparr>\<rparr>)
       = None"
    by (simp add: getBloomFilterNumBits_def)
  show ?thesis
    using null
      getBloomFilterNumBits_missing_bits
        [of "\<lparr>unchangedNames = Some \<lparr>bits = None\<rparr>\<rparr>" "\<lparr>bits = None\<rparr>"
            "Some \<lparr>unchangedNames = Some \<lparr>bits = Some \<lparr>bitmap = Some ''ab'', padding = Some 9\<rparr>\<rparr>\<rparr>"]
    by auto
qed

section \<open>The delay picker\<close>

text \<open>
  Claim C10. The constructor throws when \<open>shortDelay > longDelay\<close>, so every
  constructed \<open>Delay\<close> has \<open>shortDelay \<le> longDelay\<close>; \<open>get()\<close> never exceeds
  \<open>longDelay\<close>: offline it is the smaller of 5000 and \<open>shortDelay\<close>, online it is
  \<open>longDelay\<close> in a mobile environment and \<open>shortDelay\<close> otherwise.
\<close>

theorem Delay_get_bounded:
  "(shortDelay' > longDelay' \<longrightarrow>
      Delay_new isMobileCordova isReactNative shortDelay' longDelay'
        = Inl (Error ''Short delay should be less than long delay!''))
   \<and> (Delay_new isMobileCordova isReactNative shortDelay' longDelay' = Inr d \<longrightarrow>
        shortDelay d \<le> longDelay d
      \<and> get d isOnline \<le> longDelay d
      \<and> get d False = min 5000 (shortDelay d)
      \<and> get d True = (if isMobile d then longDelay d else shortDelay d)
      \<and> isMobile d = (isMobileCordova \<or> isReactNative)
      \<and> shortDelay d = shortDelay' \<and> longDelay d = longDelay')"
  by (auto simp: Delay_new_def get_def OFFLINE_DELAY_MS_def split: if_splits)

theorem Delay_get_bounded_witness:
  "Delay_new False True 30000 60000
     = Inr \<lparr>shortDelay = 30000, longDelay = 60000, isMobile = True\<rparr>
   \<and> get \<lparr>shortDelay = 30000, longDelay = 60000, isMobile = True\<rparr> False = 5000
   \<and> get \<lparr>shortDelay = 30000, longDelay = 60000, isMobile = True\<rparr> True = 60000
   \<and> Delay_new False True 60000 30000
       = Inl (Error ''Short delay should be less than long delay!'')"
proof -
  have constructed: "Delay_new False True 30000 60000
     = Inr \<lparr>shortDelay = 30000, longDelay = 60000, isMobile = True\<rparr>"
    by (simp add: Delay_new_def)
  show ?thesis
    using constructed
      Delay_get_bounded
        [of 30000 60000 False True "\<lparr>shortDelay = 30000, longDelay = 60000, isMobile = True\<rparr>"]
      Delay_get_bounded [of 60000 30000 False True]
    by simp
qed

section \<open>The options check of \<open>runTest\<close>\<close>

text \<open>
  Claim C2. When \<open>documentDeleteCount > documentCreateCount\<close> (after the defaults of
  lines 43 and 44), \<open>runTest\<close> throws \<open>InvalidRunTestOptionsError\<close> at once: the only
  event of the run is its first log line, so no document is created or deleted and the
  watch stream is neither created nor opened.
\<close>

theorem runTest_rejects_delete_count:
  assumes "n = (case nopt of Some n' \<Rightarrow> n' | None \<Rightarrow> 10)"
      and "d = (case dopt of Some d' \<Rightarrow> d' | None \<Rightarrow> (n + 1) div 2)"
      and "d > n"
  shows "runTest env p h s nopt dopt copt t
           = (Threw (InvalidRunTestOptionsError d n), [EvLog TestStarted], t)
       \<and> deleteDocuments_calls (events (runTest env p h s nopt dopt copt) t) = []
       \<and> (\<forall>k key val. EvCreateDocuments k key val \<notin> set (events (runTest env p h s nopt dopt copt) t))
       \<and> (\<forall>p' h' s'. EvCreateWatchStream p' h' s' \<notin> set (events (runTest env p h s nopt dopt copt) t))
       \<and> EvOpen \<notin> set (events (runTest env p h s nopt dopt copt) t)"
proof -
  have "runTest env p h s nopt dopt copt t
           = (Threw (InvalidRunTestOptionsError d n), [EvLog TestStarted], t)"
    using assms(3) unfolding assms(2) assms(1)
    by (subst io_eq) (simp add: runTest_def Let_def io_simps)
  then show ?thesis by (simp add: events_def)
qed

theorem runTest_rejects_delete_count_witness:
  "(3::int) > 2
   \<and> runTest sample_env ''p'' ''h'' True (Some 2) (Some 3) (Some ''c'') 0
       = (Threw (InvalidRunTestOptionsError 3 2), [EvLog TestStarted], 0)
   \<and> runTest sample_env ''p'' ''h'' True (Some (- 3)) None None 0
       = (Threw (InvalidRunTestOptionsError (- 1) (- 3)), [EvLog TestStarted], 0)"
  using runTest_rejects_delete_count [of 2 "Some 2" 3 "Some 3" sample_env "''p''" "''h''" True "Some ''c''" 0]
        runTest_rejects_delete_count [of "- 3" "Some (- 3)" "- 1" None sample_env "''p''" "''h''" True None 0]
  by simp

section \<open>The resume descriptor\<close>

lemma resumeWatchStream_addTarget_calls:
  "addTarget_calls (events (resumeWatchStream env this snapshot options) t) =
     [\<lparr>targetId = 2, target_projectId = projectId this,
       target_collectionId = collectionId this, keyFilter = DOCUMENT_DATA_KEY,
       valueFilter = uniqueId this,
       resume = Some \<lparr>resume_from = snapshot,
                       expectedCount =
                         (case options of
                            None \<Rightarrow> int (length (documentPaths snapshot))
                          | Some opts \<Rightarrow>
                              (case options_expectedCount opts of
                                 None \<Rightarrow> int (length (documentPaths snapshot))
                               | Some c \<Rightarrow> c))\<rparr>\<rparr>]"
  by (simp add: resumeWatchStream_def Let_def io_simps
      split: promise.splits sum.splits option.splits)

text \<open>
  Claim C6. \<open>resumeWatchStream\<close> calls \<open>addTarget\<close> once, for target 2, with a resume
  descriptor built from the given snapshot. Without an \<open>expectedCount\<close> override (no
  \<open>options\<close>, or \<open>options\<close> without the field) the descriptor's \<open>expectedCount\<close> is the
  number of document paths of that snapshot; with an override it is the override.
\<close>

theorem resumeWatchStream_expectedCount:
  "(options = None \<or> (\<exists>opts. options = Some opts \<and> options_expectedCount opts = None) \<longrightarrow>
      addTarget_calls (events (resumeWatchStream env this snapshot options) t) =
        [\<lparr>targetId = 2, target_projectId = projectId this,
          target_collectionId = collectionId this, keyFilter = DOCUMENT_DATA_KEY,
          valueFilter = uniqueId this,
          resume = Some \<lparr>resume_from = snapshot,
                          expectedCount = int (length (documentPaths snapshot))\<rparr>\<rparr>])
   \<and> (\<forall>opts c. options = Some opts \<and> options_expectedCount opts = Some c \<longrightarrow>
      addTarget_calls (events (resumeWatchStream env this snapshot options) t) =
        [\<lparr>targetId = 2, target_projectId = projectId this,
          target_collectionId = collectionId this, keyFilter = DOCUMENT_DATA_KEY,
          valueFilter = uniqueId this,
          resume = Some \<lparr>resume_from = snapshot, expectedCount = c\<rparr>\<rparr>])"
  by (auto simp add: resumeWatchStream_addTarget_calls)

theorem resumeWatchStream_expectedCount_witness:
  "addTarget_calls (events (resumeWatchStream sample_env sample_runner sample_snapshot None) 0) =
     [\<lparr>targetId = 2, target_projectId = ''p'', target_collectionId = ''c'',
       keyFilter = ''BloomFilterWatchTest_GroupId'', valueFilter = ''A'',
       resume = Some \<lparr>resume_from = sample_snapshot, expectedCount = 2\<rparr>\<rparr>]
   \<and> addTarget_calls (events (resumeWatchStream sample_env sample_runner sample_snapshot
        (Some \<lparr>options_expectedCount = Some 7\<rparr>)) 0) =
     [\<lparr>targetId = 2, target_projectId = ''p'', target_collectionId = ''c'',
       keyFilter = ''BloomFilterWatchTest_GroupId'', valueFilter = ''A'',
       resume = Some \<lparr>resume_from = sample_snapshot, expectedCount = 7\<rparr>\<rparr>]"
  using resumeWatchStream_expectedCount [of None sample_env sample_runner sample_snapshot 0]
        resumeWatchStream_expectedCount
          [of "Some \<lparr>options_expectedCount = Some 7\<rparr>" sample_env sample_runner sample_snapshot 0]
  by (simp add: sample_runner_def sample_snapshot_def DOCUMENT_DATA_KEY_def)

section \<open>The steps of \<open>run\<close>\<close>

lemma resumeWatchStream_no_delete:
  "deleteDocuments_calls (events (resumeWatchStream env this snapshot options) t) = []"
  by (simp add: resumeWatchStream_def Let_def io_simps
      split: promise.splits sum.splits option.splits)

lemma slice_suffix:
  "d \<le> int (length xs) \<Longrightarrow> slice xs (int (length xs) - d) = drop (length xs - nat d) xs"
  by (auto simp: slice_def Let_def min_def max_def nat_diff_distrib)

lemma createDocuments_result:
  "result (createDocuments env this) t =
     (case du_createDocuments env (documentCreateCount this) DOCUMENT_DATA_KEY (uniqueId this) of
        Pending \<Rightarrow> Hangs
      | SettlesAt u r \<Rightarrow> (case r of Inl e \<Rightarrow> Threw e | Inr refs \<Rightarrow> Returned refs))"
  by (simp add: createDocuments_def Let_def io_simps split: promise.splits sum.splits)

lemma startTarget_Returned:
  "result (startTarget env this) t = Returned snap \<Longrightarrow>
     \<exists>v. ws_getInitialSnapshot env 1 = SettlesAt v (Inr snap)"
  by (simp add: startTarget_def Let_def io_simps split: promise.splits sum.splits)

lemma createDocuments_no_delete:
  "deleteDocuments_calls (events (createDocuments env this) t) = []"
  by (simp add: createDocuments_def Let_def io_simps split: promise.splits sum.splits)

lemma startTarget_no_delete:
  "deleteDocuments_calls (events (startTarget env this) t) = []"
  by (simp add: startTarget_def Let_def io_simps split: promise.splits sum.splits)

lemma pause_no_delete:
  "deleteDocuments_calls (events (pause k) t) = []"
  by (simp add: pause_def Let_def io_simps split: promise.splits sum.splits)

lemma deleteDocuments_one_delete:
  "deleteDocuments_calls (events (deleteDocuments env this ds) t) = [ds]"
  by (simp add: deleteDocuments_def Let_def io_simps split: promise.splits sum.splits)

lemma run_deleteDocuments_calls:
  "deleteDocuments_calls (events (run env this) t) =
     (case result (createDocuments env this) t of
        Returned refs \<Rightarrow>
          (case result (startTarget env this) (clock_after (createDocuments env this) t) of
             Returned snap \<Rightarrow>
               (case assertDocumentsInSnapshot env snap refs of
                  Inr _ \<Rightarrow> [slice refs (int (length refs) - documentDeleteCount this)]
                | Inl _ \<Rightarrow> [])
           | Threw _ \<Rightarrow> []
           | Hangs \<Rightarrow> [])
      | Threw _ \<Rightarrow> []
      | Hangs \<Rightarrow> [])"
  by (simp add: run_def Let_def io_simps createDocuments_no_delete startTarget_no_delete
        pause_no_delete deleteDocuments_one_delete resumeWatchStream_no_delete
      split: outcome.splits sum.splits)

lemma run_Returned:
  "result (run env this) t = Returned () \<Longrightarrow>
     \<exists>refs snap. result (createDocuments env this) t = Returned refs
        \<and> result (startTarget env this) (clock_after (createDocuments env this) t) = Returned snap
        \<and> assertDocumentsInSnapshot env snap refs = Inr ()"
  by (simp add: run_def Let_def io_simps split: outcome.splits sum.splits)

lemma sort_eq_iff_set_eq:
  fixes xs ys :: "'a::linorder list"
  assumes "distinct xs" "distinct ys"
  shows "(sort xs = sort ys) = (set xs = set ys)"
proof
  assume "sort xs = sort ys"
  then have "set (sort xs) = set (sort ys)" by simp
  then show "set xs = set ys" by simp
next
  assume "set xs = set ys"
  then show "sort xs = sort ys"
    using assms by (intro sorted_distinct_set_unique) simp_all
qed

text \<open>
  Claim C4. With the created references \<open>refs\<close> and the first snapshot \<open>snap\<close> of
  target 1, whose document identifiers are pairwise different on each side (the created
  identifiers are a set of \<open>n\<close>, the snapshot's paths are a set), the assertion of Step 2
  succeeds exactly when the identifiers of the snapshot and the created identifiers are
  the same set, in whatever order either side lists them; and \<open>run\<close> reaches the
  deletion of Step 3, or returns, only in that case.
\<close>

theorem step2_assertion_set_equality:
  assumes "du_createDocuments env (documentCreateCount this) DOCUMENT_DATA_KEY (uniqueId this)
             = SettlesAt u (Inr refs)"
      and "ws_getInitialSnapshot env 1 = SettlesAt v (Inr snap)"
      and "distinct (map docId refs)"
      and "distinct (map (documentIdFromDocumentPath env) (documentPaths snap))"
  shows "((assertDocumentsInSnapshot env snap refs = Inr ())
            = (set (map (documentIdFromDocumentPath env) (documentPaths snap)) = set (map docId refs)))
       \<and> (deleteDocuments_calls (events (run env this) t) \<noteq> [] \<longrightarrow>
            set (map (documentIdFromDocumentPath env) (documentPaths snap)) = set (map docId refs))
       \<and> (result (run env this) t = Returned () \<longrightarrow>
            set (map (documentIdFromDocumentPath env) (documentPaths snap)) = set (map docId refs))"
proof -
  have a: "(assertDocumentsInSnapshot env snap refs = Inr ())
            = (set (map (documentIdFromDocumentPath env) (documentPaths snap)) = set (map docId refs))"
    using sort_eq_iff_set_eq [OF assms(4) assms(3)]
    by (simp add: assertDocumentsInSnapshot_def assertDeepEqual_def Let_def)
  have c: "result (createDocuments env this) t = Returned refs"
    by (simp add: createDocuments_result assms(1))
  have s: "snap' = snap" if "result (startTarget env this) t' = Returned snap'" for snap' t'
    using startTarget_Returned [OF that] assms(2) by simp
  have b: "assertDocumentsInSnapshot env snap refs = Inr ()"
    if "deleteDocuments_calls (events (run env this) t) \<noteq> []"
    using that s by (auto simp: run_deleteDocuments_calls c split: outcome.splits sum.splits)
  have d: "assertDocumentsInSnapshot env snap refs = Inr ()"
    if "result (run env this) t = Returned ()"
    using run_Returned [OF that] s c by auto
  show ?thesis using a b d by blast
qed

theorem step2_assertion_set_equality_witness:
  "result (run sample_env sample_runner) 0 = Returned ()
   \<and> assertDocumentsInSnapshot sample_env sample_snapshot sample_refs = Inr ()
   \<and> set (map (documentIdFromDocumentPath sample_env) (documentPaths sample_snapshot))
       = set (map docId sample_refs)
   \<and> assertDocumentsInSnapshot
         (sample_env\<lparr>ws_getInitialSnapshot := (\<lambda>k. SettlesAt 5 (Inr \<lparr>documentPaths = [''c/d2'']\<rparr>))\<rparr>)
         \<lparr>documentPaths = [''c/d2'']\<rparr> sample_refs \<noteq> Inr ()"
proof -
  have ran: "result (run sample_env sample_runner) 0 = Returned ()"
    by (simp add: sample_defs probe_defs getBloomFilterNumBits_def io_simps)
  have same: "set (map (documentIdFromDocumentPath sample_env) (documentPaths sample_snapshot))
       = set (map docId sample_refs)"
    using ran
      step2_assertion_set_equality
        [of sample_env sample_runner 2 sample_refs 5 sample_snapshot 0]
    by (simp add: sample_defs)
  have other: "set (map (documentIdFromDocumentPath sample_env) (documentPaths \<lparr>documentPaths = [''c/d2'']\<rparr>))
       \<noteq> set (map docId sample_refs)"
    by (simp add: sample_defs)
  show ?thesis
    using ran same other
      step2_assertion_set_equality
        [of sample_env sample_runner 2 sample_refs 5 sample_snapshot 0]
      step2_assertion_set_equality
        [of "sample_env\<lparr>ws_getInitialSnapshot := (\<lambda>k. SettlesAt 5 (Inr \<lparr>documentPaths = [''c/d2'']\<rparr>))\<rparr>"
            sample_runner 2 sample_refs 5 "\<lparr>documentPaths = [''c/d2'']\<rparr>" 0]
    by (simp add: sample_defs)
qed

text \<open>
  Claim C5. With \<open>n\<close> created references and \<open>documentDeleteCount \<le> n\<close>, the only
  \<open>deleteDocuments\<close> call of \<open>run\<close> (made once Step 2 has passed) has as its argument
  the last \<open>documentDeleteCount\<close> references in creation order: the created list is its
  first \<open>n - documentDeleteCount\<close> references, which are not passed to the call,
  followed by the deleted ones.
\<close>

theorem run_deletes_last_documents:
  assumes "du_createDocuments env (documentCreateCount this) DOCUMENT_DATA_KEY (uniqueId this)
             = SettlesAt u (Inr refs)"
      and "int (length refs) = documentCreateCount this"
      and "documentDeleteCount this \<le> documentCreateCount this"
  shows "(deleteDocuments_calls (events (run env this) t) = []
           \<or> deleteDocuments_calls (events (run env this) t)
               = [drop (length refs - nat (documentDeleteCount this)) refs])
       \<and> (result (run env this) t = Returned () \<longrightarrow>
            deleteDocuments_calls (events (run env this) t)
               = [drop (length refs - nat (documentDeleteCount this)) refs])
       \<and> length (drop (length refs - nat (documentDeleteCount this)) refs)
           = nat (documentDeleteCount this)
       \<and> take (length refs - nat (documentDeleteCount this)) refs
           @ drop (length refs - nat (documentDeleteCount this)) refs = refs
       \<and> (distinct refs \<longrightarrow>
            set (take (length refs - nat (documentDeleteCount this)) refs)
              \<inter> set (drop (length refs - nat (documentDeleteCount this)) refs) = {})"
proof -
  have c: "result (createDocuments env this) t = Returned refs"
    by (simp add: createDocuments_result assms(1))
  have sl: "slice refs (int (length refs) - documentDeleteCount this)
              = drop (length refs - nat (documentDeleteCount this)) refs"
    using assms(2,3) by (intro slice_suffix) simp
  have a: "deleteDocuments_calls (events (run env this) t) = []
           \<or> deleteDocuments_calls (events (run env this) t)
               = [drop (length refs - nat (documentDeleteCount this)) refs]"
    by (simp add: run_deleteDocuments_calls c sl split: outcome.splits sum.splits)
  have b: "deleteDocuments_calls (events (run env this) t)
               = [drop (length refs - nat (documentDeleteCount this)) refs]"
    if "result (run env this) t = Returned ()"
    using run_Returned [OF that] c by (auto simp: run_deleteDocuments_calls sl)
  have l: "length (drop (length refs - nat (documentDeleteCount this)) refs)
             = nat (documentDeleteCount this)"
    using assms(2,3) by auto
  have u: "set (take (length refs - nat (documentDeleteCount this)) refs)
              \<inter> set (drop (length refs - nat (documentDeleteCount this)) refs) = {}"
    if "distinct refs"
    using that by (rule set_take_disj_set_drop_if_distinct) simp
  show ?thesis using a b l u by simp
qed

theorem run_deletes_last_documents_witness:
  "result (run sample_env sample_runner) 0 = Returned ()
   \<and> deleteDocuments_calls (events (run sample_env sample_runner) 0) = [[\<lparr>docId = ''d2''\<rparr>]]
   \<and> set [\<lparr>docId = ''d1''\<rparr>] \<inter> set [\<lparr>docId = ''d2''\<rparr>] = {}"
proof -
  have ran: "result (run sample_env sample_runner) 0 = Returned ()"
    by (simp add: sample_defs probe_defs getBloomFilterNumBits_def io_simps)
  show ?thesis
    using ran run_deletes_last_documents [of sample_env sample_runner 2 sample_refs 0]
    by (simp add: sample_defs)
qed

section \<open>Closing the watch stream\<close>

lemma createDocuments_no_close: "count_list (events (createDocuments env this) t) EvClose = 0"
  by (simp add: createDocuments_def Let_def io_simps split: promise.splits sum.splits)

lemma startTarget_no_close: "count_list (events (startTarget env this) t) EvClose = 0"
  by (simp add: startTarget_def Let_def io_simps split: promise.splits sum.splits)

lemma deleteDocuments_no_close: "count_list (events (deleteDocuments env this ds) t) EvClose = 0"
  by (simp add: deleteDocuments_def Let_def io_simps split: promise.splits sum.splits)

lemma pause_no_close: "count_list (events (pause k) t) EvClose = 0"
  by (simp add: pause_def Let_def io_simps split: promise.splits sum.splits)

lemma resumeWatchStream_no_close:
  "count_list (events (resumeWatchStream env this snapshot options) t) EvClose = 0"
  by (simp add: resumeWatchStream_def Let_def io_simps split: promise.splits sum.splits option.splits)

lemma run_no_close: "count_list (events (run env this) t) EvClose = 0"
  by (simp add: run_def Let_def io_simps createDocuments_no_close startTarget_no_close
        deleteDocuments_no_close pause_no_close resumeWatchStream_no_close
      split: outcome.splits sum.splits promise.splits)

lemma runTest_opened:
  assumes "n = (case nopt of Some n' \<Rightarrow> n' | None \<Rightarrow> 10)"
      and "d = (case dopt of Some d' \<Rightarrow> d' | None \<Rightarrow> (n + 1) div 2)"
      and "d \<le> n"
      and "this = \<lparr>projectId = p, host = h, ssl = s, documentCreateCount = n,
                    documentDeleteCount = d,
                    collectionId = (case copt of Some c \<Rightarrow> c
                                    | None \<Rightarrow> ''bloom_filter_watch_test_'' @ autoId env 0),
                    uniqueId = autoId env (case copt of Some _ \<Rightarrow> 0 | None \<Rightarrow> Suc 0)\<rparr>"
      and "ws_open env = SettlesAt u (Inr ())"
  shows "result (runTest env p h s nopt dopt copt) t =
           (case result (run env this) (max t u) of
              Hangs \<Rightarrow> Hangs
            | r \<Rightarrow> (case ws_close env of
                      Pending \<Rightarrow> Hangs
                    | SettlesAt v (Inl e) \<Rightarrow> Threw e
                    | SettlesAt v (Inr _) \<Rightarrow> r))"
    and "count_list (events (runTest env p h s nopt dopt copt) t) EvClose =
           (case result (run env this) (max t u) of Hangs \<Rightarrow> 0 | _ \<Rightarrow> 1)"
  using assms(3,5) unfolding assms(4) assms(2) assms(1)
  by (simp_all add: runTest_def Let_def io_simps run_no_close
       split: outcome.splits promise.splits sum.splits)

text \<open>
  Claim C7, as stated: whenever the probe body fails, its error still propagates to the
  caller. It does not when \<open>close()\<close> rejects as well: in the run below the body fails
  with the rejection of \<open>createDocuments\<close>, the \<open>finally\<close> block calls \<open>close()\<close> once,
  and \<open>runTest\<close> throws the rejection of \<open>close()\<close> instead.
\<close>

theorem runTest_close_rejects_counterexample:
  "ws_open failing_env = SettlesAt 1 (Inr ())
   \<and> result (run failing_env sample_runner) 1 = Threw (Rejected ''create'')
   \<and> count_list (events (runTest failing_env ''p'' ''h'' True (Some 2) (Some 1) (Some ''c'')) 0)
        EvClose = 1
   \<and> result (runTest failing_env ''p'' ''h'' True (Some 2) (Some 1) (Some ''c'')) 0
        = Threw (Rejected ''close'')"
  by (simp add: runTest_def sample_defs probe_defs io_simps)

text \<open>
  Claim C7, amended. In every execution of \<open>runTest\<close> that passes the options check
  and in which \<open>open()\<close> fulfils, \<open>close()\<close> is called at most once, and exactly once
  before \<open>runTest\<close> completes, whether the body \<open>run\<close> returned or threw. When
  \<open>close()\<close> fulfils, \<open>runTest\<close> completes as the body did: it returns after a body that
  returned and throws the body's error after a body that threw. When \<open>close()\<close> rejects,
  \<open>runTest\<close> throws that rejection.
\<close>

theorem runTest_closes_stream_once:
  assumes "n = (case nopt of Some n' \<Rightarrow> n' | None \<Rightarrow> 10)"
      and "d = (case dopt of Some d' \<Rightarrow> d' | None \<Rightarrow> (n + 1) div 2)"
      and "d \<le> n"
      and "this = \<lparr>projectId = p, host = h, ssl = s, documentCreateCount = n,
                    documentDeleteCount = d,
                    collectionId = (case copt of Some c \<Rightarrow> c
                                    | None \<Rightarrow> ''bloom_filter_watch_test_'' @ autoId env 0),
                    uniqueId = autoId env (case copt of Some _ \<Rightarrow> 0 | None \<Rightarrow> Suc 0)\<rparr>"
      and "ws_open env = SettlesAt u (Inr ())"
  shows "count_list (events (runTest env p h s nopt dopt copt) t) EvClose \<le> 1
       \<and> (result (runTest env p h s nopt dopt copt) t \<noteq> Hangs \<longrightarrow>
            count_list (events (runTest env p h s nopt dopt copt) t) EvClose = 1)
       \<and> (result (run env this) (max t u) \<noteq> Hangs \<longrightarrow>
            count_list (events (runTest env p h s nopt dopt copt) t) EvClose = 1)
       \<and> (\<forall>v. ws_close env = SettlesAt v (Inr ()) \<longrightarrow>
            result (runTest env p h s nopt dopt copt) t = result (run env this) (max t u))
       \<and> (\<forall>v e. ws_close env = SettlesAt v (Inl e) \<and> result (run env this) (max t u) \<noteq> Hangs \<longrightarrow>
            result (runTest env p h s nopt dopt copt) t = Threw e)"
proof -
  note r = runTest_opened(1) [OF assms, of t]
  note c = runTest_opened(2) [OF assms, of t]
  have 1: "count_list (events (runTest env p h s nopt dopt copt) t) EvClose \<le> 1"
    by (simp add: c split: outcome.splits)
  have 2: "count_list (events (runTest env p h s nopt dopt copt) t) EvClose = 1"
    if "result (runTest env p h s nopt dopt copt) t \<noteq> Hangs"
    using that by (simp add: r c split: outcome.splits)
  have 3: "count_list (events (runTest env p h s nopt dopt copt) t) EvClose = 1"
    if "result (run env this) (max t u) \<noteq> Hangs"
    using that by (simp add: c split: outcome.splits)
  have 4: "result (runTest env p h s nopt dopt copt) t = result (run env this) (max t u)"
    if "ws_close env = SettlesAt v (Inr ())" for v
    using that by (simp add: r split: outcome.splits)
  have 5: "result (runTest env p h s nopt dopt copt) t = Threw e"
    if "ws_close env = SettlesAt v (Inl e) \<and> result (run env this) (max t u) \<noteq> Hangs" for v e
    using that by (simp add: r split: outcome.splits)
  show ?thesis using 1 2 3 4 5 by blast
qed

theorem runTest_closes_stream_once_witness:
  "result (run sample_env sample_runner) 1 = Returned ()
   \<and> result (runTest sample_env ''p'' ''h'' True (Some 2) (Some 1) (Some ''c'')) 0 = Returned ()
   \<and> count_list (events (runTest sample_env ''p'' ''h'' True (Some 2) (Some 1) (Some ''c'')) 0)
        EvClose = 1
   \<and> result (run (sample_env\<lparr>du_deleteDocuments := (\<lambda>_. SettlesAt 3 (Inl (Rejected ''delete'')))\<rparr>)
               sample_runner) 1 = Threw (Rejected ''delete'')
   \<and> result (runTest (sample_env\<lparr>du_deleteDocuments := (\<lambda>_. SettlesAt 3 (Inl (Rejected ''delete'')))\<rparr>)
               ''p'' ''h'' True (Some 2) (Some 1) (Some ''c'')) 0 = Threw (Rejected ''delete'')
   \<and> count_list (events (runTest (sample_env\<lparr>du_deleteDocuments := (\<lambda>_. SettlesAt 3 (Inl (Rejected ''delete'')))\<rparr>)
               ''p'' ''h'' True (Some 2) (Some 1) (Some ''c'')) 0) EvClose = 1
   \<and> result (runTest (sample_env\<lparr>ws_close := SettlesAt 0 (Inl (Rejected ''close''))\<rparr>)
               ''p'' ''h'' True (Some 2) (Some 1) (Some ''c'')) 0 = Threw (Rejected ''close'')"
proof -
  have ok: "result (run sample_env sample_runner) 1 = Returned ()"
    by (simp add: sample_defs probe_defs getBloomFilterNumBits_def io_simps)
  have ok': "result (run (sample_env\<lparr>ws_close := SettlesAt 0 (Inl (Rejected ''close''))\<rparr>)
               sample_runner) 1 = Returned ()"
    by (simp add: sample_defs probe_defs getBloomFilterNumBits_def io_simps)
  have bad: "result (run (sample_env\<lparr>du_deleteDocuments := (\<lambda>_. SettlesAt 3 (Inl (Rejected ''delete'')))\<rparr>)
               sample_runner) 1 = Threw (Rejected ''delete'')"
    by (simp add: sample_defs probe_defs getBloomFilterNumBits_def io_simps)
  show ?thesis
    using ok bad ok'
      runTest_closes_stream_once
        [where n = 2 and nopt = "Some 2" and d = 1 and dopt = "Some 1" and this = sample_runner
           and p = "''p''" and h = "''h''" and s = True and copt = "Some ''c''"
           and env = sample_env and u = 1 and t = 0]
      runTest_closes_stream_once
        [where n = 2 and nopt = "Some 2" and d = 1 and dopt = "Some 1" and this = sample_runner
           and p = "''p''" and h = "''h''" and s = True and copt = "Some ''c''"
           and env = "sample_env\<lparr>ws_close := SettlesAt 0 (Inl (Rejected ''close''))\<rparr>"
           and u = 1 and t = 0]
      runTest_closes_stream_once
        [where n = 2 and nopt = "Some 2" and d = 1 and dopt = "Some 1" and this = sample_runner
           and p = "''p''" and h = "''h''" and s = True and copt = "Some ''c''"
           and env = "sample_env\<lparr>du_deleteDocuments := (\<lambda>_. SettlesAt 3 (Inl (Rejected ''delete'')))\<rparr>"
           and u = 1 and t = 0]
    by (simp add: sample_env_def sample_runner_def)
qed

section \<open>The race of the resume step\<close>













end
